theory Spec2Isabelle
  imports Main "HOL-Library.Word" "HOL-Library.Sublist"
begin

section \<open>JavaScript strings\<close>

text \<open>
  A JavaScript string is a sequence of UTF-16 code units. String literals of
  \<^verbatim>\<open>main.ts\<close> are written with \<open>js\<close> for their ASCII part and with
  explicit code units for the rest.
\<close>

type_synonym jstring = "16 word list"

definition js :: "string \<Rightarrow> jstring" where
  "js s = map of_char s"

definition LF :: "16 word" where "LF = 0x0A"
definition SPACE :: "16 word" where "SPACE = 0x20"
definition COMMA :: "16 word" where "COMMA = 0x2C"

text \<open>
  The code units that \<^verbatim>\<open>String.prototype.trim\<close> strips and that the
  regular expression class \<^verbatim>\<open>\s\<close> matches (ECMAScript WhiteSpace and
  LineTerminator): TAB, LF, VT, FF, CR, SPACE, NBSP, U+1680, U+2000 to U+200A,
  U+2028, U+2029, U+202F, U+205F, U+3000 and U+FEFF.
\<close>

definition is_white_space :: "16 word \<Rightarrow> bool" where
  "is_white_space c \<longleftrightarrow>
     c = 0x09 \<or> c = 0x0A \<or> c = 0x0B \<or> c = 0x0C \<or> c = 0x0D \<or> c = 0x20 \<or>
     c = 0xA0 \<or> c = 0x1680 \<or> (0x2000 \<le> c \<and> c \<le> 0x200A) \<or>
     c = 0x2028 \<or> c = 0x2029 \<or> c = 0x202F \<or> c = 0x205F \<or> c = 0x3000 \<or>
     c = 0xFEFF"

text \<open>\<^verbatim>\<open>s.trim()\<close>: white space is removed from both ends.\<close>

definition js_trim :: "jstring \<Rightarrow> jstring" where
  "js_trim s = rev (dropWhile is_white_space (rev (dropWhile is_white_space s)))"

text \<open>
  \<^verbatim>\<open>s.split(sep)\<close> for a separator of one code unit: the pieces between
  the occurrences of the separator, in order. \<open>cur\<close> is the piece being read.
\<close>

fun split_from :: "16 word \<Rightarrow> jstring \<Rightarrow> jstring \<Rightarrow> jstring list" where
  "split_from sep cur [] = [cur]"
| "split_from sep cur (c # cs) =
     (if c = sep then cur # split_from sep [] cs else split_from sep (cur @ [c]) cs)"

definition js_split :: "16 word \<Rightarrow> jstring \<Rightarrow> jstring list" where
  "js_split sep s = split_from sep [] s"

text \<open>
  \<^verbatim>\<open>oneLine\<close> is imported from the package common-tags. It is the
  template tag built from \<^verbatim>\<open>replaceResultTransformer(/(?:\n(?:\s*))+/g, ' ')\<close>
  followed by \<^verbatim>\<open>trimResultTransformer\<close>. With the template
  \<^verbatim>\<open>oneLine`${value}`\<close> the end result handed to the transformers is
  \<open>value\<close> itself. A match of the regular expression starts at a line feed
  and takes all the white space that follows; every match becomes one space.
\<close>

function replaceResult :: "jstring \<Rightarrow> jstring" where
  "replaceResult [] = []"
| "replaceResult (c # cs) =
     (if c = LF then SPACE # replaceResult (dropWhile is_white_space cs)
      else c # replaceResult cs)"
  by pat_completeness auto
termination
proof (relation "measure length")
  fix c :: "16 word" and cs :: jstring
  have "length (dropWhile is_white_space cs) \<le> length cs"
    by (rule length_dropWhile_le)
  then show "(dropWhile is_white_space cs, c # cs) \<in> measure length"
    by simp
qed simp_all

definition oneLine :: "jstring \<Rightarrow> jstring" where
  "oneLine v = js_trim (replaceResult v)"

section \<open>Settings\<close>

record settings =
  supabaseUrl :: jstring
  supabaseKey :: jstring
  openaiKey :: jstring
  indexOnOpen :: bool
  excludedDirs :: jstring
  excludedDirsList :: "jstring list"
  publicDirs :: jstring
  publicDirsList :: "jstring list"
  prompt :: jstring

text \<open>The template literal of the default prompt, with its line breaks and tabs.\<close>

definition DEFAULT_PROMPT_TEMPLATE :: jstring where
  "DEFAULT_PROMPT_TEMPLATE =
     js ''Your name is Obsidian, you are a 22-year-old university student who studies''
     @ [0x0A, 0x09, 0x09]
     @ js ''Electronics and Electrical Engineering at University College London. Given''
     @ [0x0A, 0x09, 0x09]
     @ js ''the following sections from your notes, answer the question with the provided information. If''
     @ [0x0A, 0x09, 0x09]
     @ js ''you are unsure, and the notes don't include relevant information, you may also say''
     @ [0x0A, 0x09, 0x09]
     @ [0x22] @ js ''Sorry, I don't know the answer to this question :('' @ [0x22]"

definition DEFAULT_SETTINGS :: settings where
  "DEFAULT_SETTINGS =
     \<lparr> supabaseUrl = [], supabaseKey = [], openaiKey = [], indexOnOpen = False,
       excludedDirs = [], excludedDirsList = [],
       publicDirs = [], publicDirsList = [],
       prompt = oneLine DEFAULT_PROMPT_TEMPLATE \<rparr>"

section \<open>Clients\<close>

text \<open>
  A value that may be \<^verbatim>\<open>undefined\<close> or \<^verbatim>\<open>null\<close>. A field of
  type \<^verbatim>\<open>T | null\<close> that is declared without an initialiser holds
  \<^verbatim>\<open>undefined\<close> until its first assignment.
\<close>

datatype 'a ref = Undefined | Null | Obj 'a

fun truthy :: "'a ref \<Rightarrow> bool" where
  "truthy (Obj x) = True"
| "truthy Null = False"
| "truthy Undefined = False"

text \<open>
  The objects made by \<^verbatim>\<open>createClient(url, key, {auth: ...})\<close> and by
  \<^verbatim>\<open>new OpenAIApi(new Configuration({apiKey}))\<close>. Each construction
  yields a new object; \<open>sb_id\<close> and \<open>oa_id\<close> are the identities.
\<close>

record supabase_client =
  sb_id :: nat
  sb_url :: jstring
  sb_key :: jstring
  persistSession :: bool
  autoRefreshToken :: bool

record openai_api =
  oa_id :: nat
  apiKey :: jstring

section \<open>The search modal\<close>

text \<open>
  An instance of \<^verbatim>\<open>Typed\<close>, which types its strings into the answer
  box; \<open>destroyed\<close> is set by \<^verbatim>\<open>destroy()\<close>.
\<close>

record typed =
  strings :: "jstring list"
  typeSpeed :: nat
  showCursor :: bool
  destroyed :: bool

text \<open>
  \<^verbatim>\<open>AISearchModal\<close>: its three private fields, the content of the
  element \<^verbatim>\<open>#answer\<close>, the \<^verbatim>\<open>Typed\<close> instance if there is one,
  and whether its key listener is registered on the document.
\<close>

record modal =
  m_supabaseClient :: "supabase_client ref"
  m_openai :: "openai_api ref"
  m_prompt :: jstring
  answerHTML :: jstring
  typedInstance :: "typed option"
  listening :: bool

definition newModal :: "supabase_client ref \<Rightarrow> openai_api ref \<Rightarrow> jstring \<Rightarrow> modal" where
  "newModal sc oa pr =
     \<lparr> m_supabaseClient = sc, m_openai = oa, m_prompt = pr,
       answerHTML = js ''press shift '' @ [0x21B5] @ js '' to generate answer'',
       typedInstance = None, listening = False \<rparr>"

definition destroyTyped :: "modal \<Rightarrow> modal" where
  "destroyTyped m =
     (case typedInstance m of
        None \<Rightarrow> m
      | Some t \<Rightarrow> m\<lparr>typedInstance := Some (t\<lparr>destroyed := True\<rparr>)\<rparr>)"

definition onOpen :: "modal \<Rightarrow> modal" where
  "onOpen m = m\<lparr>listening := True\<rparr>"

definition onClose :: "modal \<Rightarrow> modal" where
  "onClose m = (destroyTyped m)\<lparr>listening := False\<rparr>"

text \<open>\<^verbatim>\<open>a ?? d\<close>\<close>

fun coalesce :: "'a ref \<Rightarrow> 'a \<Rightarrow> 'a" where
  "coalesce (Obj x) d = x"
| "coalesce Null d = d"
| "coalesce Undefined d = d"

text \<open>What an awaited call of an imported asynchronous function does.\<close>

datatype 'a awaited = Returns 'a | Throws

datatype outcome = Fulfilled | Rejected

record key_event =
  shiftKey :: bool
  key :: jstring

text \<open>
  The key listener installed by \<^verbatim>\<open>onOpen\<close>, for the key event \<open>ev\<close>
  and the content \<open>inputValue\<close> of the prompt input. \<open>generativeSearch\<close>
  is the imported function. The result says whether the promise of the
  listener is fulfilled or rejected, and gives the modal afterwards.
\<close>

definition keyListener ::
  "(supabase_client ref \<Rightarrow> openai_api ref \<Rightarrow> jstring \<Rightarrow> jstring \<Rightarrow> jstring ref awaited) \<Rightarrow>
   key_event \<Rightarrow> jstring \<Rightarrow> modal \<Rightarrow> outcome \<times> modal" where
  "keyListener generativeSearch ev inputValue m =
     (if shiftKey ev \<and> key ev = js ''Enter''
      then (let m1 = destroyTyped m;
                m2 = m1\<lparr>answerHTML := js ''Thinking...''\<rparr>
            in case generativeSearch (m_supabaseClient m2) (m_openai m2) inputValue (m_prompt m2) of
                 Throws \<Rightarrow> (Rejected, m2)
               | Returns answer \<Rightarrow>
                   (Fulfilled,
                    m2\<lparr>typedInstance :=
                         Some \<lparr>strings = [coalesce answer (js ''No answer'')], typeSpeed = 50,
                               showCursor = False, destroyed = False\<rparr>\<rparr>))
      else (Fulfilled, m))"


section \<open>The plugin\<close>

text \<open>
  What the plugin does to its host and to the imported modules, in the order
  in which it happens. Writes to the console are left out.
\<close>

datatype effect =
    SetText jstring
  | SaveData settings
  | GenerateEmbeddings "supabase_client ref" "openai_api ref" "jstring list" "jstring list"
  | OpenModal modal

text \<open>
  The plugin object together with the parts of the host it acts on:
  \<open>statusText\<close> is the text of \<^verbatim>\<open>statusBarItemEl\<close>, \<open>stored\<close> the
  data last written by \<^verbatim>\<open>saveData\<close>, \<open>next_id\<close> the identity of the
  next object to be constructed, \<open>inflight\<close> the number of promises returned by
  \<^verbatim>\<open>generateEmbeddings\<close> that have not settled yet, and
  \<open>layoutReadyCb\<close> says that a callback given to
  \<^verbatim>\<open>onLayoutReady\<close> is waiting to be called. \<open>awaitingSupabase\<close>
  and \<open>awaitingOpenai\<close> count the handlers of the settings tab that are
  suspended at \<^verbatim>\<open>await this.plugin.saveSettings()\<close> and will call
  \<^verbatim>\<open>setupSupabase()\<close>, respectively \<^verbatim>\<open>setupOpenai()\<close>, when
  they go on.
\<close>

record plugin =
  settings :: settings
  supabaseClient :: "supabase_client ref"
  openai :: "openai_api ref"
  statusText :: jstring
  stored :: "settings option"
  next_id :: nat
  effects :: "effect list"
  inflight :: nat
  layoutReadyCb :: bool
  awaitingSupabase :: nat
  awaitingOpenai :: nat

definition MISSING_TEXT :: jstring where
  "MISSING_TEXT = [0x2753] @ js ''[AI] Missing API variables''"

definition READY_TEXT :: jstring where
  "READY_TEXT = [0x2728] @ js '' [AI] Ready''"

definition INDEXING_TEXT :: jstring where
  "INDEXING_TEXT = [0xD83D, 0xDD2E] @ js '' [AI] Indexing...''"

definition LOADED_TEXT :: jstring where
  "LOADED_TEXT = [0x2728] @ js '' [AI] Loaded''"

definition ERROR_TEXT :: jstring where
  "ERROR_TEXT = [0xD83D, 0xDE14] @ js '' [AI] Error''"

definition setText :: "jstring \<Rightarrow> plugin \<Rightarrow> plugin" where
  "setText t p = p\<lparr>statusText := t, effects := effects p @ [SetText t]\<rparr>"

text \<open>
  How a method ends: it returns, or it throws. Either way the plugin is left
  in some state. For an asynchronous method, \<open>Thrown\<close> is the rejection of
  its promise.
\<close>

datatype 'a completion = Done 'a | Thrown 'a

fun state_of :: "'a completion \<Rightarrow> 'a" where
  "state_of (Done x) = x"
| "state_of (Thrown x) = x"

fun thrown :: "'a completion \<Rightarrow> bool" where
  "thrown (Done x) = False"
| "thrown (Thrown x) = True"

text \<open>
  \<^verbatim>\<open>createClient\<close> belongs to the package supabase-js. It throws when
  the URL or the key is missing and when the URL is not one it accepts;
  otherwise it returns a new client object, here with the identity \<open>i\<close>.
  Which URLs it accepts is decided in the package: \<open>validUrl\<close> stands for
  that test.
\<close>

definition createClient ::
  "(jstring \<Rightarrow> bool) \<Rightarrow> nat \<Rightarrow> jstring \<Rightarrow> jstring \<Rightarrow> supabase_client awaited" where
  "createClient validUrl i u k =
     (if u \<noteq> [] \<and> k \<noteq> [] \<and> validUrl u
      then Returns \<lparr>sb_id = i, sb_url = u, sb_key = k,
                     persistSession = False, autoRefreshToken = False\<rparr>
      else Throws)"

text \<open>
  \<^verbatim>\<open>new OpenAIApi(new Configuration({apiKey}))\<close>, of the package
  openai-edge: both constructors store their argument and return.
\<close>

definition newOpenAIApi :: "jstring \<Rightarrow> plugin \<Rightarrow> plugin" where
  "newOpenAIApi k p =
     p\<lparr>openai := Obj \<lparr>oa_id = next_id p, apiKey = k\<rparr>, next_id := Suc (next_id p)\<rparr>"

text \<open>The status line that closes both setup methods.\<close>

definition reportStatus :: "plugin \<Rightarrow> plugin" where
  "reportStatus p =
     (if \<not> (truthy (supabaseClient p) \<and> truthy (openai p))
      then setText MISSING_TEXT p
      else setText READY_TEXT p)"

text \<open>
  \<^verbatim>\<open>setupSupabase\<close>. Nothing catches what \<^verbatim>\<open>createClient\<close>
  throws: the method then ends where the client field has been set to null
  and the status line has not been reached.
\<close>

definition setupSupabase :: "(jstring \<Rightarrow> bool) \<Rightarrow> plugin \<Rightarrow> plugin completion" where
  "setupSupabase validUrl p =
     (let p1 = p\<lparr>supabaseClient := Null\<rparr>
      in if \<not> (supabaseUrl (settings p1) = [] \<or> supabaseKey (settings p1) = [])
         then (case createClient validUrl (next_id p1)
                      (supabaseUrl (settings p1)) (supabaseKey (settings p1)) of
                 Throws \<Rightarrow> Thrown p1
               | Returns c \<Rightarrow>
                   Done (reportStatus
                     (p1\<lparr>supabaseClient := Obj c, next_id := Suc (next_id p1)\<rparr>)))
         else Done (reportStatus p1))"

definition setupOpenai :: "plugin \<Rightarrow> plugin" where
  "setupOpenai p =
     (let p1 = p\<lparr>openai := Null\<rparr>;
          p2 = (if \<not> (openaiKey (settings p1) = [])
                then newOpenAIApi (openaiKey (settings p1)) p1
                else p1)
      in reportStatus p2)"

text \<open>
  \<^verbatim>\<open>loadSettings\<close>: the defaults, overwritten by the stored data when
  there is some. The stored data is what \<^verbatim>\<open>saveSettings\<close> wrote, a
  whole settings object.
\<close>

definition loadSettings :: "settings option \<Rightarrow> settings" where
  "loadSettings d = (case d of None \<Rightarrow> DEFAULT_SETTINGS | Some st \<Rightarrow> st)"

text \<open>
  The call \<^verbatim>\<open>this.saveData(this.settings)\<close> made by
  \<^verbatim>\<open>saveSettings\<close>: the settings of that moment are what is written.
\<close>

definition saveSettings :: "plugin \<Rightarrow> plugin" where
  "saveSettings p = p\<lparr>stored := Some (settings p), effects := effects p @ [SaveData (settings p)]\<rparr>"

text \<open>
  A call of \<^verbatim>\<open>generateEmbeddings\<close> with the current clients and
  directory lists. The function is imported; the call returns a promise, which
  settles later (see \<open>runSettled\<close>).
\<close>

definition startIndexing :: "plugin \<Rightarrow> plugin" where
  "startIndexing p =
     (let p1 = setText INDEXING_TEXT p
      in p1\<lparr>effects := effects p1 @
                [GenerateEmbeddings (supabaseClient p1) (openai p1)
                   (excludedDirsList (settings p1)) (publicDirsList (settings p1))],
             inflight := Suc (inflight p1)\<rparr>)"

text \<open>
  \<^verbatim>\<open>.then(() => setText(Loaded)).catch((err) => setText(Error))\<close>:
  the handlers that run when a promise of \<^verbatim>\<open>generateEmbeddings\<close>
  settles.
\<close>

definition runSettled :: "outcome \<Rightarrow> plugin \<Rightarrow> plugin" where
  "runSettled r p =
     (if inflight p = 0 then p
      else (case r of
              Fulfilled \<Rightarrow> setText LOADED_TEXT (p\<lparr>inflight := inflight p - 1\<rparr>)
            | Rejected \<Rightarrow> setText ERROR_TEXT (p\<lparr>inflight := inflight p - 1\<rparr>)))"

text \<open>
  \<^verbatim>\<open>onload\<close>, from the stored data \<open>d\<close>. The fields of the plugin
  object are undefined when it starts; the status bar item is new and empty.
  When \<^verbatim>\<open>setupSupabase\<close> throws, \<^verbatim>\<open>onload\<close> is rejected there:
  \<^verbatim>\<open>setupOpenai\<close> is not called and the two commands are not added.
  The settings tab has been added before.
\<close>

definition newPlugin :: "settings option \<Rightarrow> plugin" where
  "newPlugin d =
     \<lparr> settings = loadSettings d, supabaseClient = Undefined, openai = Undefined,
       statusText = [], stored = d, next_id = 0, effects = [], inflight = 0,
       layoutReadyCb = False, awaitingSupabase = 0, awaitingOpenai = 0 \<rparr>"

definition onload :: "(jstring \<Rightarrow> bool) \<Rightarrow> settings option \<Rightarrow> plugin completion" where
  "onload validUrl d =
     (case setupSupabase validUrl (newPlugin d) of
        Thrown p \<Rightarrow> Thrown p
      | Done p1 \<Rightarrow>
          (let p = setupOpenai p1
           in Done (if indexOnOpen (settings p) \<and> supabaseClient p \<noteq> Null \<and> openai p \<noteq> Null
                    then p\<lparr>layoutReadyCb := True\<rparr>
                    else p)))"

text \<open>The callback given to \<^verbatim>\<open>onLayoutReady\<close>, run once by the host.\<close>

definition layoutReady :: "plugin \<Rightarrow> plugin" where
  "layoutReady p =
     (if layoutReadyCb p
      then (let p1 = p\<lparr>layoutReadyCb := False\<rparr>
            in if supabaseClient p1 \<noteq> Null \<and> openai p1 \<noteq> Null
               then startIndexing p1 else p1)
      else p)"

text \<open>
  The \<^verbatim>\<open>checkCallback\<close> of the two commands: the value returned and
  the plugin afterwards.
\<close>

definition searchModal :: "plugin \<Rightarrow> modal" where
  "searchModal p = onOpen (newModal (supabaseClient p) (openai p) (prompt (settings p)))"

definition aiSearchCheck :: "bool \<Rightarrow> plugin \<Rightarrow> bool \<times> plugin" where
  "aiSearchCheck checking p =
     (if supabaseClient p \<noteq> Null \<and> openai p \<noteq> Null
      then (True,
            if \<not> checking
            then p\<lparr>effects := effects p @ [OpenModal (searchModal p)]\<rparr>
            else p)
      else (False, p))"

definition refreshCheck :: "bool \<Rightarrow> plugin \<Rightarrow> bool \<times> plugin" where
  "refreshCheck checking p =
     (if supabaseClient p \<noteq> Null \<and> openai p \<noteq> Null
      then (True, if \<not> checking then startIndexing p else p)
      else (False, p))"

datatype command = AISearch bool | RefreshIndex bool

fun invoke :: "command \<Rightarrow> plugin \<Rightarrow> bool \<times> plugin" where
  "invoke (AISearch checking) p = aiSearchCheck checking p"
| "invoke (RefreshIndex checking) p = refreshCheck checking p"

section \<open>The settings tab\<close>

text \<open>
  The \<^verbatim>\<open>onChange\<close> handlers of \<^verbatim>\<open>SettingTab.display\<close>. In the
  first four, \<^verbatim>\<open>await this.plugin.saveSettings()\<close> is the last
  statement.
\<close>

definition onChangeExcludedDirs :: "jstring \<Rightarrow> plugin \<Rightarrow> plugin" where
  "onChangeExcludedDirs v p =
     saveSettings (p\<lparr>settings := (settings p)
       \<lparr>excludedDirs := v, excludedDirsList := map js_trim (js_split COMMA v)\<rparr>\<rparr>)"

definition onChangePublicDirs :: "jstring \<Rightarrow> plugin \<Rightarrow> plugin" where
  "onChangePublicDirs v p =
     saveSettings (p\<lparr>settings := (settings p)
       \<lparr>publicDirs := v, publicDirsList := map js_trim (js_split COMMA v)\<rparr>\<rparr>)"

definition onChangePrompt :: "jstring \<Rightarrow> plugin \<Rightarrow> plugin" where
  "onChangePrompt v p = saveSettings (p\<lparr>settings := (settings p)\<lparr>prompt := oneLine v\<rparr>\<rparr>)"

definition onChangeIndexOnOpen :: "bool \<Rightarrow> plugin \<Rightarrow> plugin" where
  "onChangeIndexOnOpen v p = saveSettings (p\<lparr>settings := (settings p)\<lparr>indexOnOpen := v\<rparr>\<rparr>)"

text \<open>
  The handlers of the three credentials go on after the await. Their first
  part assigns the setting and calls \<^verbatim>\<open>saveSettings\<close>; the handler is
  then suspended until the save has completed, and other handlers and
  commands can run meanwhile.
\<close>

definition changeSupabaseUrl :: "jstring \<Rightarrow> plugin \<Rightarrow> plugin" where
  "changeSupabaseUrl v p =
     (saveSettings (p\<lparr>settings := (settings p)\<lparr>supabaseUrl := v\<rparr>\<rparr>))
       \<lparr>awaitingSupabase := Suc (awaitingSupabase p)\<rparr>"

definition changeSupabaseKey :: "jstring \<Rightarrow> plugin \<Rightarrow> plugin" where
  "changeSupabaseKey v p =
     (saveSettings (p\<lparr>settings := (settings p)\<lparr>supabaseKey := v\<rparr>\<rparr>))
       \<lparr>awaitingSupabase := Suc (awaitingSupabase p)\<rparr>"

definition changeOpenaiKey :: "jstring \<Rightarrow> plugin \<Rightarrow> plugin" where
  "changeOpenaiKey v p =
     (saveSettings (p\<lparr>settings := (settings p)\<lparr>openaiKey := v\<rparr>\<rparr>))
       \<lparr>awaitingOpenai := Suc (awaitingOpenai p)\<rparr>"

text \<open>
  Their second part, when the save has completed: a suspended handler goes on
  and calls the setup method, with the settings as they are by then.
\<close>

definition resumeSupabase :: "(jstring \<Rightarrow> bool) \<Rightarrow> plugin \<Rightarrow> plugin completion" where
  "resumeSupabase validUrl p =
     (if awaitingSupabase p = 0 then Done p
      else setupSupabase validUrl (p\<lparr>awaitingSupabase := awaitingSupabase p - 1\<rparr>))"

definition resumeOpenai :: "plugin \<Rightarrow> plugin" where
  "resumeOpenai p =
     (if awaitingOpenai p = 0 then p
      else setupOpenai (p\<lparr>awaitingOpenai := awaitingOpenai p - 1\<rparr>))"




section \<open>Executions\<close>

text \<open>
  What can happen once \<^verbatim>\<open>onload\<close> has ended: the user invokes a
  command or edits a setting, a suspended handler of the settings tab goes on,
  the host reports that the layout is ready, or a promise of
  \<^verbatim>\<open>generateEmbeddings\<close> settles. The commands exist only when
  \<^verbatim>\<open>onload\<close> has returned; the executions below also contain
  invocations after a rejected \<^verbatim>\<open>onload\<close>, which cannot happen.
\<close>

datatype event =
    Invoke command
  | LayoutReady
  | RunSettled outcome
  | ChangeExcludedDirs jstring
  | ChangePublicDirs jstring
  | ChangePrompt jstring
  | ChangeIndexOnOpen bool
  | ChangeSupabaseUrl jstring
  | ChangeSupabaseKey jstring
  | ChangeOpenaiKey jstring
  | ResumeSupabase
  | ResumeOpenai

fun step :: "(jstring \<Rightarrow> bool) \<Rightarrow> event \<Rightarrow> plugin \<Rightarrow> plugin" where
  "step validUrl (Invoke c) p = snd (invoke c p)"
| "step validUrl LayoutReady p = layoutReady p"
| "step validUrl (RunSettled r) p = runSettled r p"
| "step validUrl (ChangeExcludedDirs v) p = onChangeExcludedDirs v p"
| "step validUrl (ChangePublicDirs v) p = onChangePublicDirs v p"
| "step validUrl (ChangePrompt v) p = onChangePrompt v p"
| "step validUrl (ChangeIndexOnOpen v) p = onChangeIndexOnOpen v p"
| "step validUrl (ChangeSupabaseUrl v) p = changeSupabaseUrl v p"
| "step validUrl (ChangeSupabaseKey v) p = changeSupabaseKey v p"
| "step validUrl (ChangeOpenaiKey v) p = changeOpenaiKey v p"
| "step validUrl ResumeSupabase p = state_of (resumeSupabase validUrl p)"
| "step validUrl ResumeOpenai p = resumeOpenai p"

fun run :: "(jstring \<Rightarrow> bool) \<Rightarrow> event list \<Rightarrow> plugin \<Rightarrow> plugin" where
  "run validUrl [] p = p"
| "run validUrl (e # es) p = run validUrl es (step validUrl e p)"

section \<open>States and traces\<close>

text \<open>
  For the examples: a test of URLs that accepts those starting with
  \<^verbatim>\<open>http://\<close> or \<^verbatim>\<open>https://\<close>, a configuration with all three
  credentials and index-on-open switched on, one without the OpenAI key, and
  one whose Supabase URL has no scheme.
\<close>

definition HTTP_URL :: "jstring \<Rightarrow> bool" where
  "HTTP_URL u \<longleftrightarrow> prefix (js ''http://'') u \<or> prefix (js ''https://'') u"

definition EXAMPLE_SETTINGS :: settings where
  "EXAMPLE_SETTINGS =
     DEFAULT_SETTINGS\<lparr>supabaseUrl := js ''https://example.supabase.co'',
       supabaseKey := js ''service-role-key'', openaiKey := js ''sk-example'',
       indexOnOpen := True\<rparr>"

definition NO_OPENAI_SETTINGS :: settings where
  "NO_OPENAI_SETTINGS =
     DEFAULT_SETTINGS\<lparr>supabaseUrl := js ''https://example.supabase.co'',
       supabaseKey := js ''service-role-key''\<rparr>"

definition BAD_URL_SETTINGS :: settings where
  "BAD_URL_SETTINGS =
     DEFAULT_SETTINGS\<lparr>supabaseUrl := js ''example.supabase.co'',
       supabaseKey := js ''service-role-key''\<rparr>"

text \<open>
  A trace of effects is \<open>announced\<close> when every call of
  \<^verbatim>\<open>generateEmbeddings\<close> in it comes directly after the status text
  was set to the indexing text.
\<close>

fun announced :: "effect list \<Rightarrow> bool" where
  "announced [] = True"
| "announced (GenerateEmbeddings s a x y # es) = False"
| "announced (SetText t # GenerateEmbeddings s a x y # es) = (t = INDEXING_TEXT \<and> announced es)"
| "announced (e # es) = announced es"




section \<open>Setting up the clients\<close>

lemma setupSupabase_cases:
  "setupSupabase validUrl p =
     (if supabaseUrl (settings p) \<noteq> [] \<and> supabaseKey (settings p) \<noteq> []
      then (if validUrl (supabaseUrl (settings p))
            then Done (reportStatus
                   (p\<lparr>supabaseClient :=
                        Obj \<lparr>sb_id = next_id p, sb_url = supabaseUrl (settings p),
                             sb_key = supabaseKey (settings p),
                             persistSession = False, autoRefreshToken = False\<rparr>,
                      next_id := Suc (next_id p)\<rparr>))
            else Thrown (p\<lparr>supabaseClient := Null\<rparr>))
      else Done (reportStatus (p\<lparr>supabaseClient := Null\<rparr>)))"
  by (simp add: setupSupabase_def createClient_def Let_def)

lemma reportStatus_fields [simp]:
  "settings (reportStatus p) = settings p"
  "supabaseClient (reportStatus p) = supabaseClient p"
  "openai (reportStatus p) = openai p"
  "next_id (reportStatus p) = next_id p"
  "stored (reportStatus p) = stored p"
  "inflight (reportStatus p) = inflight p"
  "layoutReadyCb (reportStatus p) = layoutReadyCb p"
  "awaitingSupabase (reportStatus p) = awaitingSupabase p"
  "awaitingOpenai (reportStatus p) = awaitingOpenai p"
  by (simp_all add: reportStatus_def setText_def)

lemma setupSupabase_client:
  "supabaseClient (state_of (setupSupabase validUrl p)) =
     (if supabaseUrl (settings p) \<noteq> [] \<and> supabaseKey (settings p) \<noteq> [] \<and>
         validUrl (supabaseUrl (settings p))
      then Obj \<lparr>sb_id = next_id p, sb_url = supabaseUrl (settings p),
                sb_key = supabaseKey (settings p),
                persistSession = False, autoRefreshToken = False\<rparr>
      else Null)"
  by (simp add: setupSupabase_cases)

lemma setupSupabase_thrown:
  "thrown (setupSupabase validUrl p) \<longleftrightarrow>
     supabaseUrl (settings p) \<noteq> [] \<and> supabaseKey (settings p) \<noteq> [] \<and>
     \<not> validUrl (supabaseUrl (settings p))"
  by (simp add: setupSupabase_cases)

lemma setupOpenai_client:
  "openai (setupOpenai p) =
     (if openaiKey (settings p) \<noteq> []
      then Obj \<lparr>oa_id = next_id p, apiKey = openaiKey (settings p)\<rparr>
      else Null)"
  by (simp add: setupOpenai_def newOpenAIApi_def Let_def)

lemma setupSupabase_frame [simp]:
  "settings (state_of (setupSupabase validUrl p)) = settings p"
  "openai (state_of (setupSupabase validUrl p)) = openai p"
  "stored (state_of (setupSupabase validUrl p)) = stored p"
  "inflight (state_of (setupSupabase validUrl p)) = inflight p"
  "layoutReadyCb (state_of (setupSupabase validUrl p)) = layoutReadyCb p"
  "awaitingSupabase (state_of (setupSupabase validUrl p)) = awaitingSupabase p"
  "awaitingOpenai (state_of (setupSupabase validUrl p)) = awaitingOpenai p"
  by (simp_all add: setupSupabase_cases)

lemma setupOpenai_frame [simp]:
  "settings (setupOpenai p) = settings p"
  "supabaseClient (setupOpenai p) = supabaseClient p"
  "stored (setupOpenai p) = stored p"
  "inflight (setupOpenai p) = inflight p"
  "layoutReadyCb (setupOpenai p) = layoutReadyCb p"
  "awaitingSupabase (setupOpenai p) = awaitingSupabase p"
  "awaitingOpenai (setupOpenai p) = awaitingOpenai p"
  by (simp_all add: setupOpenai_def newOpenAIApi_def Let_def)

lemma example_urls:
  "HTTP_URL (js ''https://example.supabase.co'')"
  "\<not> HTTP_URL (js ''example.supabase.co'')"
  by (simp_all add: HTTP_URL_def js_def)

lemma example_credentials:
  "supabaseUrl EXAMPLE_SETTINGS = js ''https://example.supabase.co''"
  "supabaseKey EXAMPLE_SETTINGS = js ''service-role-key''"
  "openaiKey EXAMPLE_SETTINGS = js ''sk-example''"
  "indexOnOpen EXAMPLE_SETTINGS = True"
  "supabaseUrl NO_OPENAI_SETTINGS = js ''https://example.supabase.co''"
  "supabaseKey NO_OPENAI_SETTINGS = js ''service-role-key''"
  "openaiKey NO_OPENAI_SETTINGS = []"
  "supabaseUrl BAD_URL_SETTINGS = js ''example.supabase.co''"
  "supabaseKey BAD_URL_SETTINGS = js ''service-role-key''"
  "openaiKey BAD_URL_SETTINGS = []"
  by (simp_all add: EXAMPLE_SETTINGS_def NO_OPENAI_SETTINGS_def BAD_URL_SETTINGS_def
      DEFAULT_SETTINGS_def)

lemma nonempty_examples:
  "js ''https://example.supabase.co'' \<noteq> []"
  "js ''example.supabase.co'' \<noteq> []"
  "js ''service-role-key'' \<noteq> []"
  "js ''sk-example'' \<noteq> []"
  by (simp_all add: js_def)



section \<open>Missing credentials\<close>

lemma setupSupabase_missing:
  assumes "supabaseUrl (settings p) = [] \<or> supabaseKey (settings p) = []"
  shows "setupSupabase validUrl p =
           Done (p\<lparr>supabaseClient := Null, statusText := MISSING_TEXT,
             effects := effects p @ [SetText MISSING_TEXT]\<rparr>)"
  using assms by (auto simp add: setupSupabase_cases reportStatus_def setText_def)

lemma setupOpenai_missing:
  assumes "openaiKey (settings p) = []"
  shows "setupOpenai p =
           p\<lparr>openai := Null, statusText := MISSING_TEXT,
             effects := effects p @ [SetText MISSING_TEXT]\<rparr>"
  using assms by (simp add: setupOpenai_def reportStatus_def setText_def Let_def)

lemma invoke_disabled:
  assumes "supabaseClient p = Null \<or> openai p = Null"
  shows "invoke c p = (False, p)"
  using assms by (cases c) (auto simp add: aiSearchCheck_def refreshCheck_def)

lemma run_invoke_disabled:
  assumes "supabaseClient p = Null \<or> openai p = Null"
  shows "run validUrl (map Invoke cs) p = p"
  using assms by (induction cs) (simp_all add: invoke_disabled)

lemma setupSupabase_newPlugin:
  assumes "\<not> thrown (setupSupabase validUrl (newPlugin d))"
  shows "statusText (state_of (setupSupabase validUrl (newPlugin d))) = MISSING_TEXT \<and>
   effects (state_of (setupSupabase validUrl (newPlugin d))) = [SetText MISSING_TEXT] \<and>
   layoutReadyCb (state_of (setupSupabase validUrl (newPlugin d))) = False"
  using assms
  by (simp add: setupSupabase_cases reportStatus_def setText_def newPlugin_def
      split: if_splits)

lemma onload_not_thrown:
  assumes "\<not> thrown (setupSupabase validUrl (newPlugin d))"
  shows "onload validUrl d =
     Done (let p = setupOpenai (state_of (setupSupabase validUrl (newPlugin d)))
           in if indexOnOpen (settings p) \<and> supabaseClient p \<noteq> Null \<and> openai p \<noteq> Null
              then p\<lparr>layoutReadyCb := True\<rparr> else p)"
  using assms
  by (cases "setupSupabase validUrl (newPlugin d)") (simp_all add: onload_def Let_def)

lemma onload_thrown:
  assumes "supabaseUrl (loadSettings d) \<noteq> []" and "supabaseKey (loadSettings d) \<noteq> []"
    and "\<not> validUrl (supabaseUrl (loadSettings d))"
  shows "onload validUrl d = Thrown ((newPlugin d)\<lparr>supabaseClient := Null\<rparr>)"
proof -
  have "settings (newPlugin d) = loadSettings d"
    by (simp add: newPlugin_def)
  then have "setupSupabase validUrl (newPlugin d) = Thrown ((newPlugin d)\<lparr>supabaseClient := Null\<rparr>)"
    using assms by (simp add: setupSupabase_cases)
  then show ?thesis
    by (simp add: onload_def)
qed

lemma onload_missing:
  assumes "supabaseUrl (loadSettings d) = [] \<or> supabaseKey (loadSettings d) = [] \<or>
           openaiKey (loadSettings d) = []"
    and "supabaseUrl (loadSettings d) = [] \<or> supabaseKey (loadSettings d) = [] \<or>
         validUrl (supabaseUrl (loadSettings d))"
  shows "\<not> thrown (onload validUrl d) \<and>
         (supabaseClient (state_of (onload validUrl d)) = Null \<or>
          openai (state_of (onload validUrl d)) = Null) \<and>
         statusText (state_of (onload validUrl d)) = MISSING_TEXT \<and>
         effects (state_of (onload validUrl d)) = [SetText MISSING_TEXT, SetText MISSING_TEXT] \<and>
         layoutReadyCb (state_of (onload validUrl d)) = False"
proof -
  let ?p1 = "state_of (setupSupabase validUrl (newPlugin d))"
  let ?p2 = "setupOpenai ?p1"
  have st: "settings (newPlugin d) = loadSettings d"
    by (simp add: newPlugin_def)
  have nt: "\<not> thrown (setupSupabase validUrl (newPlugin d))"
    using assms(2) st by (auto simp add: setupSupabase_thrown)
  have null: "supabaseClient ?p2 = Null \<or> openai ?p2 = Null"
    using assms(1) st by (auto simp add: setupSupabase_client setupOpenai_client)
  have "\<not> (truthy (supabaseClient ?p1) \<and> openaiKey (settings ?p1) \<noteq> [])"
    using assms(1) st by (auto simp add: setupSupabase_client)
  then have p2: "statusText ?p2 = MISSING_TEXT \<and>
      effects ?p2 = effects ?p1 @ [SetText MISSING_TEXT]"
    by (auto simp add: setupOpenai_def reportStatus_def setText_def newOpenAIApi_def Let_def)
  have "onload validUrl d = Done ?p2"
    using null by (auto simp add: onload_not_thrown [OF nt] Let_def)
  then show ?thesis
    using null p2 setupSupabase_newPlugin [OF nt] by simp
qed

text \<open>
  The OpenAI key is missing, and the Supabase URL is entered without its
  scheme. \<^verbatim>\<open>onload\<close> is rejected inside \<^verbatim>\<open>setupSupabase\<close>:
  \<^verbatim>\<open>setupOpenai\<close> is never called, so the OpenAI client is left
  undefined, not null, and the status bar is never written.
\<close>

theorem missing_openai_key_counterexample:
  "openaiKey (loadSettings (Some BAD_URL_SETTINGS)) = [] \<and>
   onload HTTP_URL (Some BAD_URL_SETTINGS) =
     Thrown ((newPlugin (Some BAD_URL_SETTINGS))\<lparr>supabaseClient := Null\<rparr>) \<and>
   openai (state_of (onload HTTP_URL (Some BAD_URL_SETTINGS))) = Undefined \<and>
   statusText (state_of (onload HTTP_URL (Some BAD_URL_SETTINGS))) = [] \<and>
   effects (state_of (onload HTTP_URL (Some BAD_URL_SETTINGS))) = []"
proof -
  have "onload HTTP_URL (Some BAD_URL_SETTINGS) =
     Thrown ((newPlugin (Some BAD_URL_SETTINGS))\<lparr>supabaseClient := Null\<rparr>)"
    by (rule onload_thrown)
      (simp_all add: loadSettings_def example_credentials example_urls nonempty_examples)
  then show ?thesis
    by (simp add: newPlugin_def loadSettings_def example_credentials)
qed

text \<open>
  Claim C1, as amended. When the Supabase URL or key is empty,
  \<open>setupSupabase\<close> returns with the Supabase client null and writes the
  not-configured text to the status bar once; when the OpenAI key is empty,
  \<open>setupOpenai\<close> does the same for the OpenAI client. In both cases the
  \<open>checkCallback\<close> of either command returns false and changes nothing,
  whatever \<open>checking\<close> is. When one of the three credentials is empty in the
  loaded settings and \<^verbatim>\<open>createClient\<close> is not called with a URL it
  rejects (the Supabase URL or key is empty, or the URL is accepted),
  \<open>onload\<close> returns with the not-configured text, has done nothing but set
  that text (once in each setup method), registers no index-on-open callback,
  and any sequence of command invocations afterwards returns false and leaves
  the plugin as it is: no indexing run starts, no search modal opens and the
  status text is not written again. When both Supabase credentials are
  non-empty and \<^verbatim>\<open>createClient\<close> rejects the URL, \<open>onload\<close> is
  rejected with the Supabase client null and nothing else done.
\<close>

theorem missing_credentials_disable:
  "(supabaseUrl (settings p) = [] \<or> supabaseKey (settings p) = [] \<longrightarrow>
      \<not> thrown (setupSupabase validUrl p) \<and>
      supabaseClient (state_of (setupSupabase validUrl p)) = Null \<and>
      statusText (state_of (setupSupabase validUrl p)) = MISSING_TEXT \<and>
      effects (state_of (setupSupabase validUrl p)) = effects p @ [SetText MISSING_TEXT] \<and>
      invoke c (state_of (setupSupabase validUrl p)) =
        (False, state_of (setupSupabase validUrl p))) \<and>
   (openaiKey (settings p) = [] \<longrightarrow>
      openai (setupOpenai p) = Null \<and>
      statusText (setupOpenai p) = MISSING_TEXT \<and>
      effects (setupOpenai p) = effects p @ [SetText MISSING_TEXT] \<and>
      invoke c (setupOpenai p) = (False, setupOpenai p)) \<and>
   ((supabaseUrl (loadSettings d) = [] \<or> supabaseKey (loadSettings d) = [] \<or>
     openaiKey (loadSettings d) = []) \<and>
    (supabaseUrl (loadSettings d) = [] \<or> supabaseKey (loadSettings d) = [] \<or>
     validUrl (supabaseUrl (loadSettings d))) \<longrightarrow>
      \<not> thrown (onload validUrl d) \<and>
      (supabaseClient (state_of (onload validUrl d)) = Null \<or>
       openai (state_of (onload validUrl d)) = Null) \<and>
      statusText (state_of (onload validUrl d)) = MISSING_TEXT \<and>
      effects (state_of (onload validUrl d)) = [SetText MISSING_TEXT, SetText MISSING_TEXT] \<and>
      layoutReadyCb (state_of (onload validUrl d)) = False \<and>
      invoke c (state_of (onload validUrl d)) = (False, state_of (onload validUrl d)) \<and>
      run validUrl (map Invoke cs) (state_of (onload validUrl d)) =
        state_of (onload validUrl d)) \<and>
   (supabaseUrl (loadSettings d) \<noteq> [] \<and> supabaseKey (loadSettings d) \<noteq> [] \<and>
    \<not> validUrl (supabaseUrl (loadSettings d)) \<longrightarrow>
      onload validUrl d = Thrown ((newPlugin d)\<lparr>supabaseClient := Null\<rparr>))"
proof (intro conjI impI)
  assume a: "supabaseUrl (settings p) = [] \<or> supabaseKey (settings p) = []"
  show "\<not> thrown (setupSupabase validUrl p)"
    by (simp add: setupSupabase_missing [OF a])
  show "supabaseClient (state_of (setupSupabase validUrl p)) = Null"
    by (simp add: setupSupabase_missing [OF a])
  then show "invoke c (state_of (setupSupabase validUrl p)) =
      (False, state_of (setupSupabase validUrl p))"
    by (simp add: invoke_disabled)
  show "statusText (state_of (setupSupabase validUrl p)) = MISSING_TEXT"
    by (simp add: setupSupabase_missing [OF a])
  show "effects (state_of (setupSupabase validUrl p)) = effects p @ [SetText MISSING_TEXT]"
    by (simp add: setupSupabase_missing [OF a])
next
  assume a: "openaiKey (settings p) = []"
  show "openai (setupOpenai p) = Null"
    by (simp add: setupOpenai_missing [OF a])
  then show "invoke c (setupOpenai p) = (False, setupOpenai p)"
    by (simp add: invoke_disabled)
  show "statusText (setupOpenai p) = MISSING_TEXT"
    by (simp add: setupOpenai_missing [OF a])
  show "effects (setupOpenai p) = effects p @ [SetText MISSING_TEXT]"
    by (simp add: setupOpenai_missing [OF a])
next
  assume a: "(supabaseUrl (loadSettings d) = [] \<or> supabaseKey (loadSettings d) = [] \<or>
     openaiKey (loadSettings d) = []) \<and>
    (supabaseUrl (loadSettings d) = [] \<or> supabaseKey (loadSettings d) = [] \<or>
     validUrl (supabaseUrl (loadSettings d)))"
  note m = onload_missing [of d validUrl, OF conjunct1 [OF a] conjunct2 [OF a]]
  from m show "\<not> thrown (onload validUrl d)" by simp
  from m show n: "supabaseClient (state_of (onload validUrl d)) = Null \<or>
      openai (state_of (onload validUrl d)) = Null" by simp
  then show "invoke c (state_of (onload validUrl d)) = (False, state_of (onload validUrl d))"
    by (rule invoke_disabled)
  from n show "run validUrl (map Invoke cs) (state_of (onload validUrl d)) =
      state_of (onload validUrl d)"
    by (rule run_invoke_disabled)
  from m show "statusText (state_of (onload validUrl d)) = MISSING_TEXT" by simp
  from m show "effects (state_of (onload validUrl d)) =
      [SetText MISSING_TEXT, SetText MISSING_TEXT]" by simp
  from m show "layoutReadyCb (state_of (onload validUrl d)) = False" by simp
next
  assume "supabaseUrl (loadSettings d) \<noteq> [] \<and> supabaseKey (loadSettings d) \<noteq> [] \<and>
    \<not> validUrl (supabaseUrl (loadSettings d))"
  then show "onload validUrl d = Thrown ((newPlugin d)\<lparr>supabaseClient := Null\<rparr>)"
    by (simp add: onload_thrown)
qed

theorem missing_credentials_disable_witness:
  "supabaseClient (state_of (setupSupabase HTTP_URL (newPlugin None))) = Null \<and>
   openai (setupOpenai (newPlugin (Some NO_OPENAI_SETTINGS))) = Null \<and>
   statusText (state_of (onload HTTP_URL (Some NO_OPENAI_SETTINGS))) = MISSING_TEXT \<and>
   openai (state_of (onload HTTP_URL (Some NO_OPENAI_SETTINGS))) = Null \<and>
   invoke (RefreshIndex False) (state_of (onload HTTP_URL (Some NO_OPENAI_SETTINGS))) =
     (False, state_of (onload HTTP_URL (Some NO_OPENAI_SETTINGS))) \<and>
   run HTTP_URL (map Invoke [AISearch False, RefreshIndex False])
     (state_of (onload HTTP_URL (Some NO_OPENAI_SETTINGS))) =
     state_of (onload HTTP_URL (Some NO_OPENAI_SETTINGS)) \<and>
   thrown (onload HTTP_URL (Some BAD_URL_SETTINGS))"
proof -
  have o: "openai (state_of (onload HTTP_URL (Some NO_OPENAI_SETTINGS))) = Null"
    by (simp add: onload_def setupSupabase_cases setupOpenai_client newPlugin_def
        loadSettings_def example_credentials example_urls nonempty_examples Let_def)
  show ?thesis
    using o
      missing_credentials_disable [of "newPlugin None" HTTP_URL "RefreshIndex False"]
      missing_credentials_disable [of "newPlugin (Some NO_OPENAI_SETTINGS)" HTTP_URL
        "RefreshIndex False" "Some NO_OPENAI_SETTINGS" "[AISearch False, RefreshIndex False]"]
      missing_credentials_disable [of _ HTTP_URL _ "Some BAD_URL_SETTINGS"]
    by (simp add: newPlugin_def loadSettings_def DEFAULT_SETTINGS_def example_credentials
        example_urls nonempty_examples)
qed

section \<open>Indexing runs and the status bar\<close>

lemma announced_append:
  "announced xs \<Longrightarrow> announced ys \<Longrightarrow> announced (xs @ ys)"
  by (induction xs rule: announced.induct) (auto elim: announced.elims)

lemma startIndexing_effects:
  "effects (startIndexing p) = effects p @
     [SetText INDEXING_TEXT,
      GenerateEmbeddings (supabaseClient p) (openai p)
        (excludedDirsList (settings p)) (publicDirsList (settings p))]"
  by (simp add: startIndexing_def setText_def Let_def)

lemma startIndexing_fields [simp]:
  "statusText (startIndexing p) = INDEXING_TEXT"
  "inflight (startIndexing p) = Suc (inflight p)"
  "supabaseClient (startIndexing p) = supabaseClient p"
  "openai (startIndexing p) = openai p"
  "settings (startIndexing p) = settings p"
  "next_id (startIndexing p) = next_id p"
  by (simp_all add: startIndexing_def setText_def Let_def)

lemma announced_reportStatus:
  "announced (effects p) \<Longrightarrow> announced (effects (reportStatus p))"
  by (simp add: reportStatus_def setText_def announced_append)

lemma announced_frame:
  "effects q = effects p \<Longrightarrow> announced (effects p) \<Longrightarrow> announced (effects q)"
  by simp

lemma announced_setup:
  "announced (effects p) \<Longrightarrow> announced (effects (state_of (setupSupabase validUrl p)))"
  "announced (effects p) \<Longrightarrow> announced (effects (setupOpenai p))"
  "announced (effects p) \<Longrightarrow> announced (effects (saveSettings p))"
  "announced (effects p) \<Longrightarrow> announced (effects (startIndexing p))"
  "announced (effects p) \<Longrightarrow> announced (effects (runSettled r p))"
  by (auto simp add: setupSupabase_cases setupOpenai_def reportStatus_def setText_def
      newOpenAIApi_def saveSettings_def Let_def startIndexing_effects runSettled_def
      intro!: announced_append split: outcome.splits)

lemma announced_handlers:
  "announced (effects p) \<Longrightarrow> announced (effects (changeSupabaseUrl v p))"
  "announced (effects p) \<Longrightarrow> announced (effects (changeSupabaseKey v p))"
  "announced (effects p) \<Longrightarrow> announced (effects (changeOpenaiKey v p))"
  "announced (effects p) \<Longrightarrow> announced (effects (state_of (resumeSupabase validUrl p)))"
  "announced (effects p) \<Longrightarrow> announced (effects (resumeOpenai p))"
  by (simp_all add: changeSupabaseUrl_def changeSupabaseKey_def changeOpenaiKey_def
      resumeSupabase_def resumeOpenai_def announced_setup)

lemma announced_step:
  "announced (effects p) \<Longrightarrow> announced (effects (step validUrl e p))"
proof (cases e)
  case (Invoke c)
  assume "announced (effects p)"
  then show ?thesis using Invoke
    by (cases c) (auto simp add: aiSearchCheck_def refreshCheck_def announced_setup
        intro!: announced_append)
next
  case LayoutReady
  assume "announced (effects p)"
  then show ?thesis using LayoutReady
    by (auto simp add: layoutReady_def Let_def startIndexing_effects intro!: announced_append)
qed (simp_all add: announced_setup announced_handlers onChangeExcludedDirs_def
    onChangePublicDirs_def onChangePrompt_def onChangeIndexOnOpen_def)

lemma announced_run:
  "announced (effects p) \<Longrightarrow> announced (effects (run validUrl es p))"
  by (induction es arbitrary: p) (simp_all add: announced_step)

lemma announced_onload: "announced (effects (state_of (onload validUrl d)))"
proof -
  have n: "announced (effects (newPlugin d))"
    by (simp add: newPlugin_def)
  show ?thesis
  proof (cases "setupSupabase validUrl (newPlugin d)")
    case (Done q)
    then have "announced (effects q)"
      using announced_setup(1) [OF n, of validUrl] by simp
    then have "announced (effects (setupOpenai q))"
      by (rule announced_setup)
    then show ?thesis
      using Done by (simp add: onload_def Let_def)
  next
    case (Thrown q)
    then have "announced (effects q)"
      using announced_setup(1) [OF n, of validUrl] by simp
    then show ?thesis
      using Thrown by (simp add: onload_def)
  qed
qed

lemma texts_differ: "LOADED_TEXT \<noteq> ERROR_TEXT"
  by (simp add: LOADED_TEXT_def ERROR_TEXT_def)

text \<open>
  Claim C7. An indexing run is started in two places, the refresh-embedding
  command (called with \<open>checking\<close> false) and the index-on-open callback;
  with both clients set, each of them is \<open>startIndexing\<close>, which first sets
  the status text to the indexing text and then calls
  \<^verbatim>\<open>generateEmbeddings\<close>. In every execution of the plugin every call
  of \<^verbatim>\<open>generateEmbeddings\<close> directly follows that status update. When
  the promise of a run settles, the only effect is one status update: the
  loaded text exactly when the promise was fulfilled and the error text
  exactly when it was rejected.
\<close>

theorem reindex_status_protocol:
  "(supabaseClient p \<noteq> Null \<and> openai p \<noteq> Null \<longrightarrow>
      refreshCheck False p = (True, startIndexing p)) \<and>
   (layoutReadyCb p \<and> supabaseClient p \<noteq> Null \<and> openai p \<noteq> Null \<longrightarrow>
      layoutReady p = startIndexing (p\<lparr>layoutReadyCb := False\<rparr>)) \<and>
   effects (startIndexing p) = effects p @
     [SetText INDEXING_TEXT,
      GenerateEmbeddings (supabaseClient p) (openai p)
        (excludedDirsList (settings p)) (publicDirsList (settings p))] \<and>
   statusText (startIndexing p) = INDEXING_TEXT \<and>
   announced (effects (run validUrl es (state_of (onload validUrl d)))) \<and>
   (0 < inflight p \<longrightarrow>
      effects (runSettled r p) =
        effects p @ [SetText (case r of Fulfilled \<Rightarrow> LOADED_TEXT | Rejected \<Rightarrow> ERROR_TEXT)] \<and>
      (statusText (runSettled r p) = LOADED_TEXT \<longleftrightarrow> r = Fulfilled) \<and>
      (statusText (runSettled r p) = ERROR_TEXT \<longleftrightarrow> r = Rejected))"
proof (intro conjI impI)
  show "announced (effects (run validUrl es (state_of (onload validUrl d))))"
    by (rule announced_run [OF announced_onload])
next
  assume "0 < inflight p"
  then show "effects (runSettled r p) =
      effects p @ [SetText (case r of Fulfilled \<Rightarrow> LOADED_TEXT | Rejected \<Rightarrow> ERROR_TEXT)]"
    by (cases r) (simp_all add: runSettled_def setText_def)
next
  assume "0 < inflight p"
  then show "statusText (runSettled r p) = LOADED_TEXT \<longleftrightarrow> r = Fulfilled"
    using texts_differ by (cases r) (auto simp add: runSettled_def setText_def)
next
  assume "0 < inflight p"
  then show "statusText (runSettled r p) = ERROR_TEXT \<longleftrightarrow> r = Rejected"
    using texts_differ by (cases r) (auto simp add: runSettled_def setText_def)
qed (simp_all add: refreshCheck_def layoutReady_def Let_def startIndexing_effects)

lemma onload_example:
  "onload HTTP_URL (Some EXAMPLE_SETTINGS) =
     Done \<lparr> settings = EXAMPLE_SETTINGS,
       supabaseClient = Obj \<lparr>sb_id = 0, sb_url = js ''https://example.supabase.co'',
         sb_key = js ''service-role-key'', persistSession = False, autoRefreshToken = False\<rparr>,
       openai = Obj \<lparr>oa_id = 1, apiKey = js ''sk-example''\<rparr>,
       statusText = READY_TEXT, stored = Some EXAMPLE_SETTINGS, next_id = 2,
       effects = [SetText MISSING_TEXT, SetText READY_TEXT], inflight = 0,
       layoutReadyCb = True, awaitingSupabase = 0, awaitingOpenai = 0 \<rparr>"
  by (simp add: onload_def newPlugin_def loadSettings_def setupSupabase_cases setupOpenai_def
      reportStatus_def setText_def newOpenAIApi_def Let_def
      example_credentials example_urls nonempty_examples)

theorem reindex_status_protocol_witness:
  "refreshCheck False (state_of (onload HTTP_URL (Some EXAMPLE_SETTINGS))) =
     (True, startIndexing (state_of (onload HTTP_URL (Some EXAMPLE_SETTINGS)))) \<and>
   layoutReady (state_of (onload HTTP_URL (Some EXAMPLE_SETTINGS))) =
     startIndexing ((state_of (onload HTTP_URL (Some EXAMPLE_SETTINGS)))\<lparr>layoutReadyCb := False\<rparr>) \<and>
   statusText (runSettled Rejected
     (startIndexing (state_of (onload HTTP_URL (Some EXAMPLE_SETTINGS))))) = ERROR_TEXT \<and>
   statusText (runSettled Fulfilled
     (startIndexing (state_of (onload HTTP_URL (Some EXAMPLE_SETTINGS))))) = LOADED_TEXT"
  using reindex_status_protocol [of "state_of (onload HTTP_URL (Some EXAMPLE_SETTINGS))"]
    reindex_status_protocol
      [of "startIndexing (state_of (onload HTTP_URL (Some EXAMPLE_SETTINGS)))" _ _ _ Rejected]
    reindex_status_protocol
      [of "startIndexing (state_of (onload HTTP_URL (Some EXAMPLE_SETTINGS)))" _ _ _ Fulfilled]
  by (simp add: onload_example)

section \<open>Indexing runs in flight\<close>

lemma refresh_replicate:
  "supabaseClient p \<noteq> Null \<and> openai p \<noteq> Null \<Longrightarrow>
   inflight (run validUrl (replicate n (Invoke (RefreshIndex False))) p) = inflight p + n"
  by (induction n arbitrary: p) (simp_all add: refreshCheck_def)

text \<open>
  With all credentials set and index-on-open switched on, \<open>onload\<close>
  returns, and the run started when the layout is ready has not settled when
  the refresh-embedding command is invoked: the command returns true and calls
  \<^verbatim>\<open>generateEmbeddings\<close> again, and two runs are in flight.
\<close>

theorem single_flight_counterexample:
  "\<not> thrown (onload HTTP_URL (Some EXAMPLE_SETTINGS)) \<and>
   inflight (run HTTP_URL [LayoutReady] (state_of (onload HTTP_URL (Some EXAMPLE_SETTINGS)))) = 1 \<and>
   fst (invoke (RefreshIndex False)
     (run HTTP_URL [LayoutReady] (state_of (onload HTTP_URL (Some EXAMPLE_SETTINGS))))) = True \<and>
   inflight (run HTTP_URL [LayoutReady, Invoke (RefreshIndex False)]
     (state_of (onload HTTP_URL (Some EXAMPLE_SETTINGS)))) = 2"
  by (simp add: onload_example layoutReady_def refreshCheck_def Let_def)

text \<open>
  Claim C3, as amended. \<^verbatim>\<open>main.ts\<close> has no single-flight guard. With
  both clients set, every invocation of the refresh-embedding command with
  \<open>checking\<close> false returns true and calls \<^verbatim>\<open>generateEmbeddings\<close>
  at once, whether or not earlier runs are still in flight; it is neither
  queued nor rejected. So \<open>n\<close> invocations made before any run settles leave
  \<open>n\<close> more runs in flight.
\<close>

theorem refresh_starts_run_unguarded:
  "supabaseClient p \<noteq> Null \<and> openai p \<noteq> Null \<longrightarrow>
     invoke (RefreshIndex False) p = (True, startIndexing p) \<and>
     inflight (startIndexing p) = Suc (inflight p) \<and>
     inflight (run validUrl (replicate n (Invoke (RefreshIndex False))) p) = inflight p + n"
  by (simp add: refresh_replicate refreshCheck_def)

theorem refresh_starts_run_unguarded_witness:
  "invoke (RefreshIndex False) (state_of (onload HTTP_URL (Some EXAMPLE_SETTINGS))) =
     (True, startIndexing (state_of (onload HTTP_URL (Some EXAMPLE_SETTINGS)))) \<and>
   inflight (run HTTP_URL (replicate 3 (Invoke (RefreshIndex False)))
     (state_of (onload HTTP_URL (Some EXAMPLE_SETTINGS)))) = 3"
  using refresh_starts_run_unguarded [of "state_of (onload HTTP_URL (Some EXAMPLE_SETTINGS))" HTTP_URL 3]
  by (simp add: onload_example)

section \<open>Changing a credential\<close>


lemma saveSettings_fields [simp]:
  "settings (saveSettings p) = settings p"
  "stored (saveSettings p) = Some (settings p)"
  "supabaseClient (saveSettings p) = supabaseClient p"
  "openai (saveSettings p) = openai p"
  "next_id (saveSettings p) = next_id p"
  "awaitingSupabase (saveSettings p) = awaitingSupabase p"
  "awaitingOpenai (saveSettings p) = awaitingOpenai p"
  by (simp_all add: saveSettings_def)


















section \<open>The answer box\<close>

text \<open>
  Claim C4. When shift and Enter are pressed in the search modal and the
  awaited call of \<^verbatim>\<open>generativeSearch\<close> resolves to \<^verbatim>\<open>null\<close> or
  to \<^verbatim>\<open>undefined\<close>, the key listener completes normally and the text
  typed into the answer box is the string \<^verbatim>\<open>No answer\<close>.
\<close>

theorem no_answer_sentinel:
  "shiftKey ev \<and> key ev = js ''Enter'' \<and>
   (generativeSearch (m_supabaseClient m) (m_openai m) inputValue (m_prompt m) = Returns Null \<or>
    generativeSearch (m_supabaseClient m) (m_openai m) inputValue (m_prompt m) = Returns Undefined)
   \<longrightarrow>
   fst (keyListener generativeSearch ev inputValue m) = Fulfilled \<and>
   typedInstance (snd (keyListener generativeSearch ev inputValue m)) =
     Some \<lparr>strings = [js ''No answer''], typeSpeed = 50, showCursor = False, destroyed = False\<rparr>"
  by (auto simp add: keyListener_def destroyTyped_def Let_def split: option.splits)

theorem no_answer_sentinel_witness:
  "fst (keyListener (\<lambda>sc oa q pr. Returns Null) \<lparr>shiftKey = True, key = js ''Enter''\<rparr>
      (js ''what stores charge'') (searchModal (state_of (onload HTTP_URL (Some EXAMPLE_SETTINGS))))) = Fulfilled \<and>
   typedInstance (snd (keyListener (\<lambda>sc oa q pr. Returns Null) \<lparr>shiftKey = True, key = js ''Enter''\<rparr>
      (js ''what stores charge'') (searchModal (state_of (onload HTTP_URL (Some EXAMPLE_SETTINGS)))))) =
     Some \<lparr>strings = [js ''No answer''], typeSpeed = 50, showCursor = False, destroyed = False\<rparr>"
  using no_answer_sentinel [of "\<lparr>shiftKey = True, key = js ''Enter''\<rparr>" "\<lambda>sc oa q pr. Returns Null"
      "searchModal (state_of (onload HTTP_URL (Some EXAMPLE_SETTINGS)))" "js ''what stores charge''"]
  by simp

text \<open>
  When the awaited call is rejected instead, nothing in the listener catches
  it: the promise of the listener is rejected and the answer box keeps the
  text it was given before the call.
\<close>

lemma keyListener_rejected:
  "shiftKey ev \<and> key ev = js ''Enter'' \<and>
   generativeSearch (m_supabaseClient m) (m_openai m) inputValue (m_prompt m) = Throws \<longrightarrow>
   keyListener generativeSearch ev inputValue m =
     (Rejected, (destroyTyped m)\<lparr>answerHTML := js ''Thinking...''\<rparr>)"
  by (auto simp add: keyListener_def destroyTyped_def Let_def split: option.splits)

section \<open>Search and the public directories\<close>
























section \<open>Splitting and trimming\<close>

lemma split_from_length: "length (split_from sep cur s) = Suc (count_list s sep)"
  by (induction s arbitrary: cur) simp_all

lemma split_from_join:
  "concat (map ((#) sep) (split_from sep cur s)) = sep # cur @ s"
  by (induction s arbitrary: cur) simp_all

lemma split_from_pieces:
  "sep \<notin> set cur \<Longrightarrow> list_all (\<lambda>w. sep \<notin> set w) (split_from sep cur s)"
  by (induction s arbitrary: cur) simp_all

lemma js_split_empty: "js_split sep [] = [[]]"
  by (simp add: js_split_def)

lemma js_trim_decompose:
  "s = takeWhile is_white_space s @ js_trim s @
       rev (takeWhile is_white_space (rev (dropWhile is_white_space s)))"
proof -
  let ?t = "dropWhile is_white_space s"
  have "?t = rev (dropWhile is_white_space (rev ?t)) @ rev (takeWhile is_white_space (rev ?t))"
    by (metis rev_append rev_rev_ident takeWhile_dropWhile_id)
  then have "?t = js_trim s @ rev (takeWhile is_white_space (rev ?t))"
    by (simp add: js_trim_def)
  moreover have "s = takeWhile is_white_space s @ ?t"
    by simp
  ultimately show ?thesis by simp
qed

lemma js_trim_ends:
  "js_trim s = [] \<or> (\<not> is_white_space (hd (js_trim s)) \<and> \<not> is_white_space (last (js_trim s)))"
proof (cases "js_trim s = []")
  case True
  then show ?thesis by simp
next
  case False
  let ?t = "dropWhile is_white_space s"
  let ?u = "dropWhile is_white_space (rev ?t)"
  have u: "?u \<noteq> []"
    using False unfolding js_trim_def rev_is_Nil_conv .
  have t: "?t \<noteq> []"
  proof
    assume a: "?t = []"
    from u [unfolded a] show False by simp
  qed
  have "last (js_trim s) = hd ?u"
    using u by (simp add: js_trim_def last_rev)
  then have l: "\<not> is_white_space (last (js_trim s))"
    using hd_dropWhile [OF u] by simp
  have "hd (js_trim s) = last ?u"
    using u by (simp add: js_trim_def hd_rev)
  also have "\<dots> = last (rev ?t)"
    using u by (metis append_Nil2 last_appendR takeWhile_dropWhile_id)
  also have "\<dots> = hd ?t"
    using t by (simp add: last_rev)
  finally have "\<not> is_white_space (hd (js_trim s))"
    using hd_dropWhile [OF t] by simp
  with l show ?thesis by simp
qed






section \<open>The directory lists\<close>

text \<open>
  Claim C9. For every value entered in the Excluded Directories or the Public
  Directories setting, the raw value is stored, the stored list is the value
  split at the commas with every piece trimmed, and both are persisted. The
  split has one piece more than the value has commas, no piece contains a
  comma, and joining the pieces with commas gives the value back; trimming a
  piece \<open>w\<close> removes a run of white space from each end and leaves a string
  that neither starts nor ends with white space. In particular the empty value
  is stored as the list whose one entry is the empty string, and that entry is
  a prefix of every path.
\<close>

theorem directory_lists_split_trim:
  "excludedDirs (settings (onChangeExcludedDirs v p)) = v \<and>
   excludedDirsList (settings (onChangeExcludedDirs v p)) = map js_trim (js_split COMMA v) \<and>
   stored (onChangeExcludedDirs v p) = Some (settings (onChangeExcludedDirs v p)) \<and>
   publicDirs (settings (onChangePublicDirs v p)) = v \<and>
   publicDirsList (settings (onChangePublicDirs v p)) = map js_trim (js_split COMMA v) \<and>
   stored (onChangePublicDirs v p) = Some (settings (onChangePublicDirs v p)) \<and>
   length (js_split COMMA v) = Suc (count_list v COMMA) \<and>
   list_all (\<lambda>w. COMMA \<notin> set w) (js_split COMMA v) \<and>
   concat (map ((#) COMMA) (js_split COMMA v)) = COMMA # v \<and>
   w = takeWhile is_white_space w @ js_trim w @
       rev (takeWhile is_white_space (rev (dropWhile is_white_space w))) \<and>
   (js_trim w = [] \<or>
    (\<not> is_white_space (hd (js_trim w)) \<and> \<not> is_white_space (last (js_trim w)))) \<and>
   excludedDirsList (settings (onChangeExcludedDirs [] p)) = [[]] \<and>
   publicDirsList (settings (onChangePublicDirs [] p)) = [[]] \<and>
   prefix (hd (excludedDirsList (settings (onChangeExcludedDirs [] p)))) path \<and>
   prefix (hd (publicDirsList (settings (onChangePublicDirs [] p)))) path"
proof -
  have handlers:
    "excludedDirs (settings (onChangeExcludedDirs v p)) = v"
    "excludedDirsList (settings (onChangeExcludedDirs v p)) = map js_trim (js_split COMMA v)"
    "stored (onChangeExcludedDirs v p) = Some (settings (onChangeExcludedDirs v p))"
    "publicDirs (settings (onChangePublicDirs v p)) = v"
    "publicDirsList (settings (onChangePublicDirs v p)) = map js_trim (js_split COMMA v)"
    "stored (onChangePublicDirs v p) = Some (settings (onChangePublicDirs v p))"
    by (simp_all add: onChangeExcludedDirs_def onChangePublicDirs_def saveSettings_def)
  have split:
    "length (js_split COMMA v) = Suc (count_list v COMMA)"
    "list_all (\<lambda>w. COMMA \<notin> set w) (js_split COMMA v)"
    "concat (map ((#) COMMA) (js_split COMMA v)) = COMMA # v"
    by (simp_all add: js_split_def split_from_length split_from_pieces split_from_join)
  have empty:
    "excludedDirsList (settings (onChangeExcludedDirs [] p)) = [[]]"
    "publicDirsList (settings (onChangePublicDirs [] p)) = [[]]"
    by (simp_all add: onChangeExcludedDirs_def onChangePublicDirs_def saveSettings_def
        js_split_def js_trim_def)
  have pre:
    "prefix (hd (excludedDirsList (settings (onChangeExcludedDirs [] p)))) path"
    "prefix (hd (publicDirsList (settings (onChangePublicDirs [] p)))) path"
    by (simp_all add: empty)
  show ?thesis
    using handlers split empty pre js_trim_decompose [of w] js_trim_ends [of w]
    by blast
qed

section \<open>The prompt\<close>




end
